theory Spec2Isabelle
  imports Complex_Main
begin

section \<open>Data model\<close>

text \<open>
  Physical key identifiers and layout identifiers are the ASCII strings of the browser's
  \<open>KeyboardEvent.code\<close> (\<open>KeyE\<close>, \<open>ShiftLeft\<close>) and are modelled as \<open>string\<close>.
  Devanagari text is a JavaScript string, that is a sequence of UTF-16 code units: \<open>s.length\<close>
  counts code units, \<open>s[i]\<close> reads one code unit and \<open>===\<close> compares the sequences. It is
  modelled as a list of code-unit values, so \<open>[0x092E, 0x094D]\<close> is Ma followed by Halant.
\<close>

type_synonym jsstring = "nat list"

datatype ModifierState = Normal | Shift | AltGr | AltGrShift

datatype Hand = left | right

record KeyMapping =
  key :: string
  normal :: jsstring
  shift :: jsstring
  altgr :: jsstring
  altgrShift :: jsstring
  finger :: nat
  hand :: Hand
  label :: string

record ModifierKeys =
  shiftKeys :: "string list"
  altgrKeys :: "string list"

record KeyboardLayout =
  name :: string
  description :: string
  modifiers :: ModifierKeys
  rows :: "KeyMapping list list"

section \<open>Layout tables (data/keyboardMappings.ts)\<close>

definition REMINGTON_GAIL_LAYOUT :: KeyboardLayout where
  "REMINGTON_GAIL_LAYOUT = \<lparr>
    name = ''Remington GAIL'',
    description = ''Remington-GAIL typewriter layout for Unicode Devanagari input'',
    modifiers = \<lparr>shiftKeys = [''ShiftLeft'', ''ShiftRight''], altgrKeys = [''AltRight'']\<rparr>,
    rows = [
      \<comment> \<open>number row\<close>
      [
        \<lparr>key = ''Backquote'', normal = [0x093C], shift = [0x0926, 0x094D, 0x092F], altgr = [0x200C], altgrShift = [0x200D],
          finger = 0, hand = left, label = [CHR 0x60]\<rparr>,
        \<lparr>key = ''Digit1'', normal = [0x0031], shift = [0x0964], altgr = [0x0967], altgrShift = [0x0919],
          finger = 0, hand = left, label = ''1''\<rparr>,
        \<lparr>key = ''Digit2'', normal = [0x0032], shift = [0x002F], altgr = [0x0968], altgrShift = [0x0918],
          finger = 1, hand = left, label = ''2''\<rparr>,
        \<lparr>key = ''Digit3'', normal = [0x0033], shift = [0x0903], altgr = [0x0969], altgrShift = [0x0939, 0x094D, 0x0928],
          finger = 2, hand = left, label = ''3''\<rparr>,
        \<lparr>key = ''Digit4'', normal = [0x0034], shift = [0x002A], altgr = [0x096A], altgrShift = [0x0939, 0x094D, 0x092F],
          finger = 3, hand = left, label = ''4''\<rparr>,
        \<lparr>key = ''Digit5'', normal = [0x0035], shift = [0x002D], altgr = [0x096B], altgrShift = [0x0025],
          finger = 3, hand = left, label = ''5''\<rparr>,
        \<lparr>key = ''Digit6'', normal = [0x0036], shift = [0x2018], altgr = [0x096C], altgrShift = [0x0939, 0x094D, 0x092E],
          finger = 4, hand = right, label = ''6''\<rparr>,
        \<lparr>key = ''Digit7'', normal = [0x0037], shift = [0x2019], altgr = [0x096D], altgrShift = [0x00F7],
          finger = 4, hand = right, label = ''7''\<rparr>,
        \<lparr>key = ''Digit8'', normal = [0x0038], shift = [0x0926, 0x094D, 0x0927], altgr = [0x096E], altgrShift = [0x00D7],
          finger = 5, hand = right, label = ''8''\<rparr>,
        \<lparr>key = ''Digit9'', normal = [0x0039], shift = [0x0924, 0x094D, 0x0930], altgr = [0x096F], altgrShift = [0x0926, 0x094D, 0x0917],
          finger = 6, hand = right, label = ''9''\<rparr>,
        \<lparr>key = ''Digit0'', normal = [0x0030], shift = [0x090B], altgr = [0x0966], altgrShift = [0x0021],
          finger = 7, hand = right, label = ''0''\<rparr>,
        \<lparr>key = ''Minus'', normal = [0x003B], shift = [0x002E], altgr = [0x091E], altgrShift = [0x091E, 0x094D],
          finger = 7, hand = right, label = ''-''\<rparr>,
        \<lparr>key = ''Equal'', normal = [0x0943], shift = [0x094D], altgr = [0x002B], altgrShift = [0x003D],
          finger = 7, hand = right, label = [CHR 0x3D]\<rparr>,
        \<lparr>key = ''Backspace'', normal = [], shift = [], altgr = [], altgrShift = [],
          finger = 7, hand = right, label = ''Backspace''\<rparr>
      ],
      \<comment> \<open>top row (QWERTY)\<close>
      [
        \<lparr>key = ''Tab'', normal = [], shift = [], altgr = [], altgrShift = [],
          finger = 0, hand = left, label = ''Tab''\<rparr>,
        \<lparr>key = ''KeyQ'', normal = [0x0941], shift = [0x092B], altgr = [0x092B, 0x094D], altgrShift = [0x091D, 0x094D, 0x0930],
          finger = 0, hand = left, label = ''Q''\<rparr>,
        \<lparr>key = ''KeyW'', normal = [0x0942], shift = [0x0945], altgr = [0x0944], altgrShift = [0x0960],
          finger = 1, hand = left, label = ''W''\<rparr>,
        \<lparr>key = ''KeyE'', normal = [0x092E], shift = [0x092E, 0x094D], altgr = [0x0947, 0x0902], altgrShift = [0x0948, 0x0902],
          finger = 2, hand = left, label = ''E''\<rparr>,
        \<lparr>key = ''KeyR'', normal = [0x0924], shift = [0x0924, 0x094D], altgr = [0x0924, 0x094D, 0x0924], altgrShift = [0x0924, 0x094D, 0x0924, 0x094D],
          finger = 3, hand = left, label = ''R''\<rparr>,
        \<lparr>key = ''KeyT'', normal = [0x091C], shift = [0x091C, 0x094D], altgr = [0x091C, 0x094D, 0x0930], altgrShift = [0x0924, 0x094D, 0x0930, 0x094D],
          finger = 3, hand = left, label = ''T''\<rparr>,
        \<lparr>key = ''KeyY'', normal = [0x0932], shift = [0x0932, 0x094D], altgr = [0x0926, 0x094D, 0x0926], altgrShift = [0x0926, 0x094D, 0x092D],
          finger = 4, hand = right, label = ''Y''\<rparr>,
        \<lparr>key = ''KeyU'', normal = [0x0928], shift = [0x0928, 0x094D], altgr = [0x092B, 0x093C], altgrShift = [0x0928, 0x094D, 0x0928],
          finger = 4, hand = right, label = ''U''\<rparr>,
        \<lparr>key = ''KeyI'', normal = [0x092A], shift = [0x092A, 0x094D], altgr = [0x092B], altgrShift = [0x092A, 0x094D, 0x0930],
          finger = 5, hand = right, label = ''I''\<rparr>,
        \<lparr>key = ''KeyO'', normal = [0x0935], shift = [0x0935, 0x094D], altgr = [0x0935, 0x094D, 0x0928], altgrShift = [0x0935, 0x094D, 0x0930],
          finger = 6, hand = right, label = ''O''\<rparr>,
        \<lparr>key = ''KeyP'', normal = [0x091A], shift = [0x091A, 0x094D], altgr = [0x0936], altgrShift = [0x0922, 0x093C],
          finger = 7, hand = right, label = ''P''\<rparr>,
        \<lparr>key = ''BracketLeft'', normal = [0x0916, 0x094D], shift = [0x0915, 0x094D, 0x0937, 0x094D], altgr = [0x0916], altgrShift = [0x0915, 0x094D, 0x0937],
          finger = 7, hand = right, label = [CHR 0x5B]\<rparr>,
        \<lparr>key = ''BracketRight'', normal = [0x002C], shift = [0x0926, 0x094D, 0x0935], altgr = [0x0926, 0x094D, 0x0927], altgrShift = [0x0926, 0x094D, 0x092C],
          finger = 7, hand = right, label = [CHR 0x5D]\<rparr>,
        \<lparr>key = ''Backslash'', normal = [0x0028], shift = [0x0029], altgr = [0x093D], altgrShift = [0x0950],
          finger = 7, hand = right, label = [CHR 0x5C]\<rparr>
      ],
      \<comment> \<open>home row (ASDF)\<close>
      [
        \<lparr>key = ''CapsLock'', normal = [], shift = [], altgr = [], altgrShift = [],
          finger = 0, hand = left, label = ''Caps''\<rparr>,
        \<lparr>key = ''KeyA'', normal = [0x0902], shift = [0x093E], altgr = [0x0939, 0x094D, 0x0923], altgrShift = [0x0916, 0x093C],
          finger = 0, hand = left, label = ''A''\<rparr>,
        \<lparr>key = ''KeyS'', normal = [0x0947], shift = [0x0948], altgr = [0x092D], altgrShift = [0x0937, 0x094D, 0x091F],
          finger = 1, hand = left, label = ''S''\<rparr>,
        \<lparr>key = ''KeyD'', normal = [0x0915], shift = [0x0915, 0x094D], altgr = [0x0927], altgrShift = [0x0937, 0x094D, 0x0920],
          finger = 2, hand = left, label = ''D''\<rparr>,
        \<lparr>key = ''KeyF'', normal = [0x093F], shift = [0x0925, 0x094D], altgr = [0x092F, 0x094D], altgrShift = [0x0925],
          finger = 3, hand = left, label = ''F''\<rparr>,
        \<lparr>key = ''KeyG'', normal = [0x0939], shift = [0x0933], altgr = [0x0918], altgrShift = [0x0917, 0x094D, 0x0930],
          finger = 3, hand = left, label = ''G''\<rparr>,
        \<lparr>key = ''KeyH'', normal = [0x0940], shift = [0x092D, 0x094D], altgr = [0x0940, 0x0902], altgrShift = [0x091E, 0x094D, 0x091A],
          finger = 4, hand = right, label = ''H''\<rparr>,
        \<lparr>key = ''KeyJ'', normal = [0x0930], shift = [0x0936, 0x094D, 0x0930], altgr = [0x0930, 0x094D, 0x200D], altgrShift = [0x0936, 0x094D],
          finger = 4, hand = right, label = ''J''\<rparr>,
        \<lparr>key = ''KeyK'', normal = [0x093E], shift = [0x091C, 0x094D, 0x091E], altgr = [0x094D, 0x092F], altgrShift = [0x091C, 0x094D, 0x091E, 0x094D],
          finger = 5, hand = right, label = ''K''\<rparr>,
        \<lparr>key = ''KeyL'', normal = [0x0938], shift = [0x0938, 0x094D], altgr = [0x0938, 0x094D, 0x0924, 0x094D, 0x0930], altgrShift = [0x0938, 0x094D, 0x0930],
          finger = 6, hand = right, label = ''L''\<rparr>,
        \<lparr>key = ''Semicolon'', normal = [0x092F], shift = [0x0930, 0x0942], altgr = [0x003B], altgrShift = [0x091E, 0x094D, 0x091C],
          finger = 7, hand = right, label = [CHR 0x3B]\<rparr>,
        \<lparr>key = ''Quote'', normal = [0x0936, 0x094D], shift = [0x0937, 0x094D], altgr = [0x0936], altgrShift = [0x0937],
          finger = 7, hand = right, label = [CHR 0x27]\<rparr>,
        \<lparr>key = ''Enter'', normal = [], shift = [], altgr = [], altgrShift = [],
          finger = 7, hand = right, label = ''Enter''\<rparr>
      ],
      \<comment> \<open>bottom row (ZXCV)\<close>
      [
        \<lparr>key = ''ShiftLeft'', normal = [], shift = [], altgr = [], altgrShift = [],
          finger = 0, hand = left, label = ''Shift''\<rparr>,
        \<lparr>key = ''KeyZ'', normal = [0x094D, 0x0930], shift = [0x0930, 0x094D], altgr = [0x094B], altgrShift = [0x094C],
          finger = 0, hand = left, label = ''Z''\<rparr>,
        \<lparr>key = ''KeyX'', normal = [0x0917], shift = [0x0917, 0x094D], altgr = [0x0926, 0x094D, 0x0930], altgrShift = [0x0917, 0x093C],
          finger = 1, hand = left, label = ''X''\<rparr>,
        \<lparr>key = ''KeyC'', normal = [0x092C], shift = [0x092C, 0x094D], altgr = [0x0921, 0x093C], altgrShift = [0x091C, 0x093C],
          finger = 2, hand = left, label = ''C''\<rparr>,
        \<lparr>key = ''KeyV'', normal = [0x0905], shift = [0x091F], altgr = [0x091F, 0x094D], altgrShift = [0x091F, 0x094D, 0x091F],
          finger = 3, hand = left, label = ''V''\<rparr>,
        \<lparr>key = ''KeyB'', normal = [0x0907], shift = [0x0920], altgr = [0x0908], altgrShift = [0x0908, 0x0902],
          finger = 3, hand = left, label = ''B''\<rparr>,
        \<lparr>key = ''KeyN'', normal = [0x0926], shift = [0x091B], altgr = [0x0923], altgrShift = [0x0926, 0x094D, 0x092E],
          finger = 4, hand = right, label = ''N''\<rparr>,
        \<lparr>key = ''KeyM'', normal = [0x0909], shift = [0x0921], altgr = [0x090A], altgrShift = [0x0921, 0x094D, 0x0921],
          finger = 4, hand = right, label = ''M''\<rparr>,
        \<lparr>key = ''Comma'', normal = [0x090F], shift = [0x0922], altgr = [0x0901], altgrShift = [0x0922, 0x094D, 0x0922],
          finger = 5, hand = right, label = [CHR 0x2C]\<rparr>,
        \<lparr>key = ''Period'', normal = [0x0923, 0x094D], shift = [0x091D], altgr = [0x002E], altgrShift = [0x091D, 0x094D],
          finger = 6, hand = right, label = [CHR 0x2E]\<rparr>,
        \<lparr>key = ''Slash'', normal = [0x0927, 0x094D], shift = [0x0918, 0x094D], altgr = [0x002F], altgrShift = [0x003F],
          finger = 7, hand = right, label = [CHR 0x2F]\<rparr>,
        \<lparr>key = ''ShiftRight'', normal = [], shift = [], altgr = [], altgrShift = [],
          finger = 7, hand = right, label = ''Shift''\<rparr>
      ],
      \<comment> \<open>space bar row\<close>
      [
        \<lparr>key = ''ControlLeft'', normal = [], shift = [], altgr = [], altgrShift = [],
          finger = 0, hand = left, label = ''Ctrl''\<rparr>,
        \<lparr>key = ''AltLeft'', normal = [], shift = [], altgr = [], altgrShift = [],
          finger = 0, hand = left, label = ''Alt''\<rparr>,
        \<lparr>key = ''Space'', normal = [0x0020], shift = [0x0020], altgr = [0x0020], altgrShift = [0x0020],
          finger = 4, hand = left, label = ''Space''\<rparr>,
        \<lparr>key = ''AltRight'', normal = [], shift = [], altgr = [], altgrShift = [],
          finger = 7, hand = right, label = ''Alt''\<rparr>,
        \<lparr>key = ''ControlRight'', normal = [], shift = [], altgr = [], altgrShift = [],
          finger = 7, hand = right, label = ''Ctrl''\<rparr>
      ]
    ]\<rparr>"

definition INSCRIPT_LAYOUT :: KeyboardLayout where
  "INSCRIPT_LAYOUT = \<lparr>
    name = ''INSCRIPT'',
    description = ''Government of India standard layout for Devanagari input'',
    modifiers = \<lparr>shiftKeys = [''ShiftLeft'', ''ShiftRight''], altgrKeys = []\<rparr>,
    rows = [
      \<comment> \<open>number row\<close>
      [
        \<lparr>key = ''Backquote'', normal = [0x094A], shift = [0x0912], altgr = [], altgrShift = [],
          finger = 0, hand = left, label = [CHR 0x60]\<rparr>,
        \<lparr>key = ''Digit1'', normal = [0x0967], shift = [0x090D], altgr = [], altgrShift = [],
          finger = 0, hand = left, label = ''1''\<rparr>,
        \<lparr>key = ''Digit2'', normal = [0x0968], shift = [0x0945], altgr = [], altgrShift = [],
          finger = 1, hand = left, label = ''2''\<rparr>,
        \<lparr>key = ''Digit3'', normal = [0x0969], shift = [0x094D, 0x0930], altgr = [], altgrShift = [],
          finger = 2, hand = left, label = ''3''\<rparr>,
        \<lparr>key = ''Digit4'', normal = [0x096A], shift = [0x0930, 0x094D], altgr = [], altgrShift = [],
          finger = 3, hand = left, label = ''4''\<rparr>,
        \<lparr>key = ''Digit5'', normal = [0x096B], shift = [0x091C, 0x094D, 0x091E], altgr = [], altgrShift = [],
          finger = 3, hand = left, label = ''5''\<rparr>,
        \<lparr>key = ''Digit6'', normal = [0x096C], shift = [0x0924, 0x094D, 0x0930], altgr = [], altgrShift = [],
          finger = 4, hand = right, label = ''6''\<rparr>,
        \<lparr>key = ''Digit7'', normal = [0x096D], shift = [0x0915, 0x094D, 0x0937], altgr = [], altgrShift = [],
          finger = 4, hand = right, label = ''7''\<rparr>,
        \<lparr>key = ''Digit8'', normal = [0x096E], shift = [0x0936, 0x094D, 0x0930], altgr = [], altgrShift = [],
          finger = 5, hand = right, label = ''8''\<rparr>,
        \<lparr>key = ''Digit9'', normal = [0x096F], shift = [0x0028], altgr = [], altgrShift = [],
          finger = 6, hand = right, label = ''9''\<rparr>,
        \<lparr>key = ''Digit0'', normal = [0x0966], shift = [0x0029], altgr = [], altgrShift = [],
          finger = 7, hand = right, label = ''0''\<rparr>,
        \<lparr>key = ''Minus'', normal = [0x002D], shift = [0x0903], altgr = [], altgrShift = [],
          finger = 7, hand = right, label = ''-''\<rparr>,
        \<lparr>key = ''Equal'', normal = [0x0943], shift = [0x090B], altgr = [], altgrShift = [],
          finger = 7, hand = right, label = [CHR 0x3D]\<rparr>,
        \<lparr>key = ''Backspace'', normal = [], shift = [], altgr = [], altgrShift = [],
          finger = 7, hand = right, label = ''Backspace''\<rparr>
      ],
      \<comment> \<open>top row (QWERTY)\<close>
      [
        \<lparr>key = ''Tab'', normal = [], shift = [], altgr = [], altgrShift = [],
          finger = 0, hand = left, label = ''Tab''\<rparr>,
        \<lparr>key = ''KeyQ'', normal = [0x094C], shift = [0x0914], altgr = [], altgrShift = [],
          finger = 0, hand = left, label = ''Q''\<rparr>,
        \<lparr>key = ''KeyW'', normal = [0x0948], shift = [0x0910], altgr = [], altgrShift = [],
          finger = 1, hand = left, label = ''W''\<rparr>,
        \<lparr>key = ''KeyE'', normal = [0x093E], shift = [0x0906], altgr = [], altgrShift = [],
          finger = 2, hand = left, label = ''E''\<rparr>,
        \<lparr>key = ''KeyR'', normal = [0x0940], shift = [0x0908], altgr = [], altgrShift = [],
          finger = 3, hand = left, label = ''R''\<rparr>,
        \<lparr>key = ''KeyT'', normal = [0x0942], shift = [0x090A], altgr = [], altgrShift = [],
          finger = 3, hand = left, label = ''T''\<rparr>,
        \<lparr>key = ''KeyY'', normal = [0x092C], shift = [0x092D], altgr = [], altgrShift = [],
          finger = 4, hand = right, label = ''Y''\<rparr>,
        \<lparr>key = ''KeyU'', normal = [0x0939], shift = [0x0919], altgr = [], altgrShift = [],
          finger = 4, hand = right, label = ''U''\<rparr>,
        \<lparr>key = ''KeyI'', normal = [0x0917], shift = [0x0918], altgr = [], altgrShift = [],
          finger = 5, hand = right, label = ''I''\<rparr>,
        \<lparr>key = ''KeyO'', normal = [0x0926], shift = [0x0927], altgr = [], altgrShift = [],
          finger = 6, hand = right, label = ''O''\<rparr>,
        \<lparr>key = ''KeyP'', normal = [0x091C], shift = [0x091D], altgr = [], altgrShift = [],
          finger = 7, hand = right, label = ''P''\<rparr>,
        \<lparr>key = ''BracketLeft'', normal = [0x0921], shift = [0x0922], altgr = [], altgrShift = [],
          finger = 7, hand = right, label = [CHR 0x5B]\<rparr>,
        \<lparr>key = ''BracketRight'', normal = [], shift = [0x091E], altgr = [], altgrShift = [],
          finger = 7, hand = right, label = [CHR 0x5D]\<rparr>,
        \<lparr>key = ''Backslash'', normal = [], shift = [], altgr = [], altgrShift = [],
          finger = 7, hand = right, label = [CHR 0x5C]\<rparr>
      ],
      \<comment> \<open>home row (ASDF)\<close>
      [
        \<lparr>key = ''CapsLock'', normal = [], shift = [], altgr = [], altgrShift = [],
          finger = 0, hand = left, label = ''Caps''\<rparr>,
        \<lparr>key = ''KeyA'', normal = [0x094B], shift = [0x0913], altgr = [], altgrShift = [],
          finger = 0, hand = left, label = ''A''\<rparr>,
        \<lparr>key = ''KeyS'', normal = [0x0947], shift = [0x090F], altgr = [], altgrShift = [],
          finger = 1, hand = left, label = ''S''\<rparr>,
        \<lparr>key = ''KeyD'', normal = [0x094D], shift = [0x0905], altgr = [], altgrShift = [],
          finger = 2, hand = left, label = ''D''\<rparr>,
        \<lparr>key = ''KeyF'', normal = [0x093F], shift = [0x0907], altgr = [], altgrShift = [],
          finger = 3, hand = left, label = ''F''\<rparr>,
        \<lparr>key = ''KeyG'', normal = [0x0941], shift = [0x0909], altgr = [], altgrShift = [],
          finger = 3, hand = left, label = ''G''\<rparr>,
        \<lparr>key = ''KeyH'', normal = [0x092A], shift = [0x092B], altgr = [], altgrShift = [],
          finger = 4, hand = right, label = ''H''\<rparr>,
        \<lparr>key = ''KeyJ'', normal = [0x0930], shift = [0x0931], altgr = [], altgrShift = [],
          finger = 4, hand = right, label = ''J''\<rparr>,
        \<lparr>key = ''KeyK'', normal = [0x0915], shift = [0x0916], altgr = [], altgrShift = [],
          finger = 5, hand = right, label = ''K''\<rparr>,
        \<lparr>key = ''KeyL'', normal = [0x0924], shift = [0x0925], altgr = [], altgrShift = [],
          finger = 6, hand = right, label = ''L''\<rparr>,
        \<lparr>key = ''Semicolon'', normal = [0x091A], shift = [0x091B], altgr = [], altgrShift = [],
          finger = 7, hand = right, label = [CHR 0x3B]\<rparr>,
        \<lparr>key = ''Quote'', normal = [0x091F], shift = [0x0920], altgr = [], altgrShift = [],
          finger = 7, hand = right, label = [CHR 0x27]\<rparr>,
        \<lparr>key = ''Enter'', normal = [], shift = [], altgr = [], altgrShift = [],
          finger = 7, hand = right, label = ''Enter''\<rparr>
      ],
      \<comment> \<open>bottom row (ZXCV)\<close>
      [
        \<lparr>key = ''ShiftLeft'', normal = [], shift = [], altgr = [], altgrShift = [],
          finger = 0, hand = left, label = ''Shift''\<rparr>,
        \<lparr>key = ''KeyZ'', normal = [0x0949], shift = [0x0911], altgr = [], altgrShift = [],
          finger = 0, hand = left, label = ''Z''\<rparr>,
        \<lparr>key = ''KeyX'', normal = [0x0902], shift = [0x0901], altgr = [], altgrShift = [],
          finger = 1, hand = left, label = ''X''\<rparr>,
        \<lparr>key = ''KeyC'', normal = [0x092E], shift = [0x0923], altgr = [], altgrShift = [],
          finger = 2, hand = left, label = ''C''\<rparr>,
        \<lparr>key = ''KeyV'', normal = [0x0928], shift = [0x0929], altgr = [], altgrShift = [],
          finger = 3, hand = left, label = ''V''\<rparr>,
        \<lparr>key = ''KeyB'', normal = [0x0935], shift = [0x0934], altgr = [], altgrShift = [],
          finger = 3, hand = left, label = ''B''\<rparr>,
        \<lparr>key = ''KeyN'', normal = [0x0932], shift = [0x0933], altgr = [], altgrShift = [],
          finger = 4, hand = right, label = ''N''\<rparr>,
        \<lparr>key = ''KeyM'', normal = [0x0938], shift = [0x0936], altgr = [], altgrShift = [],
          finger = 4, hand = right, label = ''M''\<rparr>,
        \<lparr>key = ''Comma'', normal = [0x002C], shift = [0x0937], altgr = [], altgrShift = [],
          finger = 5, hand = right, label = [CHR 0x2C]\<rparr>,
        \<lparr>key = ''Period'', normal = [0x0964], shift = [0x0965], altgr = [], altgrShift = [],
          finger = 6, hand = right, label = [CHR 0x2E]\<rparr>,
        \<lparr>key = ''Slash'', normal = [0x092F], shift = [0x092F, 0x093C], altgr = [], altgrShift = [],
          finger = 7, hand = right, label = [CHR 0x2F]\<rparr>,
        \<lparr>key = ''ShiftRight'', normal = [], shift = [], altgr = [], altgrShift = [],
          finger = 7, hand = right, label = ''Shift''\<rparr>
      ],
      \<comment> \<open>space bar row\<close>
      [
        \<lparr>key = ''ControlLeft'', normal = [], shift = [], altgr = [], altgrShift = [],
          finger = 0, hand = left, label = ''Ctrl''\<rparr>,
        \<lparr>key = ''AltLeft'', normal = [], shift = [], altgr = [], altgrShift = [],
          finger = 0, hand = left, label = ''Alt''\<rparr>,
        \<lparr>key = ''Space'', normal = [0x0020], shift = [0x0020], altgr = [], altgrShift = [],
          finger = 4, hand = left, label = ''Space''\<rparr>,
        \<lparr>key = ''AltRight'', normal = [], shift = [], altgr = [], altgrShift = [],
          finger = 7, hand = right, label = ''Alt''\<rparr>,
        \<lparr>key = ''ControlRight'', normal = [], shift = [], altgr = [], altgrShift = [],
          finger = 7, hand = right, label = ''Ctrl''\<rparr>
      ]
    ]\<rparr>"
section \<open>JavaScript \<open>Map\<close>\<close>

text \<open>
  A \<open>Map\<close> keeps its entries in insertion order; \<open>set\<close> on a key that is present replaces
  the value in place, \<open>new Map(entries)\<close> sets the entries one after the other, and
  \<open>values()\<close> iterates in insertion order.
\<close>

type_synonym ('k, 'v) jsMap = "('k \<times> 'v) list"

fun Map_set :: "('k, 'v) jsMap \<Rightarrow> 'k \<Rightarrow> 'v \<Rightarrow> ('k, 'v) jsMap" where
  "Map_set [] k v = [(k, v)]"
| "Map_set (p # ps) k v = (if fst p = k then (k, v) # ps else p # Map_set ps k v)"

definition new_Map :: "('k \<times> 'v) list \<Rightarrow> ('k, 'v) jsMap" where
  "new_Map entries = foldl (\<lambda>m (k, v). Map_set m k v) [] entries"

definition Map_get :: "('k, 'v) jsMap \<Rightarrow> 'k \<Rightarrow> 'v option" where
  "Map_get m k = map_of m k"

definition Map_has :: "('k, 'v) jsMap \<Rightarrow> 'k \<Rightarrow> bool" where
  "Map_has m k = (case map_of m k of None \<Rightarrow> False | Some v \<Rightarrow> True)"

definition Map_values :: "('k, 'v) jsMap \<Rightarrow> 'v list" where
  "Map_values m = map snd m"

text \<open>The flattened key index: \<open>new Map(layout.rows.flat().map((k) => [k.key, k]))\<close>.\<close>

definition keyIndex :: "KeyboardLayout \<Rightarrow> (string, KeyMapping) jsMap" where
  "keyIndex layout = new_Map (map (\<lambda>k. (key k, k)) (concat (rows layout)))"

definition KEY_MAP :: "(string, KeyMapping) jsMap" where
  "KEY_MAP = keyIndex REMINGTON_GAIL_LAYOUT"

definition INSCRIPT_KEY_MAP :: "(string, KeyMapping) jsMap" where
  "INSCRIPT_KEY_MAP = keyIndex INSCRIPT_LAYOUT"

text \<open>The registry of layouts, an object literal with two own properties.\<close>

definition AVAILABLE_LAYOUTS :: "(string \<times> KeyboardLayout) list" where
  "AVAILABLE_LAYOUTS =
     [(''remington-gail'', REMINGTON_GAIL_LAYOUT), (''inscript'', INSCRIPT_LAYOUT)]"

section \<open>Keyboard mapper (utils/keyboardMapper.ts)\<close>

text \<open>
  The functions of \<open>useKeyboardMapper\<close>, which read the key index of the layout context;
  the standalone functions of the same names are these at \<open>KEY_MAP\<close>.
\<close>

definition getCharacterForKey ::
    "(string, KeyMapping) jsMap \<Rightarrow> string \<Rightarrow> ModifierState \<Rightarrow> jsstring" where
  "getCharacterForKey keyMap k modifierState =
     (case Map_get keyMap k of
        None \<Rightarrow> []
      | Some keyMapping \<Rightarrow>
          (case modifierState of
             Shift \<Rightarrow> shift keyMapping
           | AltGr \<Rightarrow> altgr keyMapping
           | AltGrShift \<Rightarrow> altgrShift keyMapping
           | Normal \<Rightarrow> normal keyMapping))"

text \<open>\<open>pressedKeys\<close> is a \<open>Set\<close> of key codes, listed here in its iteration order.\<close>

definition getModifierState :: "string list \<Rightarrow> ModifierState" where
  "getModifierState pressedKeys =
     (let hasShift = (''ShiftLeft'' \<in> set pressedKeys \<or> ''ShiftRight'' \<in> set pressedKeys);
          hasAltGr = (''AltRight'' \<in> set pressedKeys)
      in if hasShift \<and> hasAltGr then AltGrShift
         else if hasAltGr then AltGr
         else if hasShift then Shift
         else Normal)"

definition isModifierKey :: "string \<Rightarrow> bool" where
  "isModifierKey k =
     (k = ''ShiftLeft'' \<or> k = ''ShiftRight'' \<or> k = ''AltRight'' \<or> k = ''ControlLeft'' \<or>
      k = ''ControlRight'' \<or> k = ''AltLeft'' \<or> k = ''MetaLeft'' \<or> k = ''MetaRight'')"

definition isTypeableKey :: "(string, KeyMapping) jsMap \<Rightarrow> string \<Rightarrow> bool" where
  "isTypeableKey keyMap k =
     (if isModifierKey k then False
      else if k = ''Backspace'' \<or> k = ''Enter'' \<or> k = ''Tab'' \<or> k = ''Escape'' then False
      else Map_has keyMap k)"

text \<open>
  One candidate of \<open>findKeysForCharacter\<close>: the object \<open>{key, modifierState, keyMapping}\<close>
  as a triple. \<open>pushMatches\<close> is the body of the loop over \<open>keyMap.values()\<close>: four
  independent tests, each pushing one candidate.
\<close>

type_synonym candidate = "string \<times> ModifierState \<times> KeyMapping"

definition pushMatches :: "jsstring \<Rightarrow> candidate list \<Rightarrow> KeyMapping \<Rightarrow> candidate list" where
  "pushMatches character results keyMapping =
     (let r1 = (if normal keyMapping = character
                then results @ [(key keyMapping, Normal, keyMapping)] else results);
          r2 = (if shift keyMapping = character
                then r1 @ [(key keyMapping, Shift, keyMapping)] else r1);
          r3 = (if altgr keyMapping = character
                then r2 @ [(key keyMapping, AltGr, keyMapping)] else r2)
      in if altgrShift keyMapping = character
         then r3 @ [(key keyMapping, AltGrShift, keyMapping)] else r3)"

definition findKeysForCharacter ::
    "(string, KeyMapping) jsMap \<Rightarrow> jsstring \<Rightarrow> candidate list" where
  "findKeysForCharacter keyMap character =
     foldl (pushMatches character) [] (Map_values keyMap)"

section \<open>Canonical equivalence of the nukta letters\<close>

text \<open>
  Modelled from the spec: \<open>normalizeHindiText\<close> (utils/hindiUtils) is not among the
  sources. Section 4.2 makes canonical Unicode composition/decomposition the normalizer's
  first pass. This is the fragment of that pass on the precomposed nukta letters
  U+0958..U+095F: they are composition exclusions, so canonical normalization writes each
  of them as its base letter followed by the nukta U+093C, and leaves the decomposed
  spelling as it is.
\<close>

definition canonicalNukta :: "nat \<Rightarrow> jsstring" where
  "canonicalNukta c =
     (if c = 0x0958 then [0x0915, 0x093C]
      else if c = 0x0959 then [0x0916, 0x093C]
      else if c = 0x095A then [0x0917, 0x093C]
      else if c = 0x095B then [0x091C, 0x093C]
      else if c = 0x095C then [0x0921, 0x093C]
      else if c = 0x095D then [0x0922, 0x093C]
      else if c = 0x095E then [0x092B, 0x093C]
      else if c = 0x095F then [0x092F, 0x093C]
      else [c])"

definition canonicalPass :: "jsstring \<Rightarrow> jsstring" where
  "canonicalPass s = concat (map canonicalNukta s)"

section \<open>Statistics (utils/statsCalculator)\<close>

record TypingStats =
  wpm :: real
  accuracy :: real

text \<open>
  Modelled from the spec: \<open>calculateDetailedStats\<close> (utils/statsCalculator) is not among
  the sources. Section 4.4: accuracy is \<open>correctCharacters / totalCharactersTyped * 100\<close>,
  defined as \<open>100\<close> when \<open>totalCharactersTyped\<close> is \<open>0\<close>; wpm is
  \<open>(correctCharacters / 5) / (elapsedSeconds / 60)\<close>. The caller replaces an elapsed time of
  zero by \<open>0.1\<close> before the call.
\<close>

definition calculateDetailedStats :: "real \<Rightarrow> real \<Rightarrow> real \<Rightarrow> real \<Rightarrow> TypingStats" where
  "calculateDetailedStats totalCharactersTyped correctCharacters errorCount elapsedSeconds =
     \<lparr>wpm = (correctCharacters / 5) / (elapsedSeconds / 60),
      accuracy = (if totalCharactersTyped = 0 then 100
                  else correctCharacters / totalCharactersTyped * 100)\<rparr>"

section \<open>Typing engine (hooks/useTypingEngine)\<close>

text \<open>
  What the hook closes over: the key index behind \<open>mapper\<close>, the two imports from
  utils/hindiUtils, which are not among the sources and are therefore parameters, and the
  target text.
\<close>

record engineEnv =
  mapper :: "(string, KeyMapping) jsMap"
  normalizeHindiText :: "jsstring \<Rightarrow> jsstring"
  compareHindiChars :: "jsstring \<Rightarrow> jsstring \<Rightarrow> bool"
  targetText :: jsstring

definition normalizedTarget :: "engineEnv \<Rightarrow> jsstring" where
  "normalizedTarget env = normalizeHindiText env (targetText env)"

text \<open>
  The four \<open>useState\<close> cells of the hook, and what its calls leave outside it:
  \<open>timerRunning\<close> records the last of \<open>timer.start()\<close>, \<open>timer.pause()\<close> and
  \<open>timer.reset()\<close>; \<open>pendingFinish\<close> counts the \<open>setTimeout(finish, 50)\<close> callbacks that
  are scheduled and have not run yet; \<open>onCompleteCalls\<close> counts the executions of
  \<open>onComplete?.(currentStats)\<close>. Each event is handled as one atomic step on the state of the
  latest render.
\<close>

record engine =
  currentIndex :: nat
  typedText :: jsstring
  errors :: "nat list"
  isActive :: bool
  timerRunning :: bool
  pendingFinish :: nat
  onCompleteCalls :: nat

definition initialEngine :: engine where
  "initialEngine =
     \<lparr>currentIndex = 0, typedText = [], errors = [], isActive = False,
      timerRunning = False, pendingFinish = 0, onCompleteCalls = 0\<rparr>"

definition isCompleted :: "engineEnv \<Rightarrow> engine \<Rightarrow> bool" where
  "isCompleted env s = (currentIndex s \<ge> length (normalizedTarget env))"

text \<open>\<open>elapsed\<close> is \<open>timer.elapsed\<close>; \<open>timer.elapsed || 0.1\<close> replaces zero by \<open>0.1\<close>.\<close>

definition currentStats :: "real \<Rightarrow> engine \<Rightarrow> TypingStats" where
  "currentStats elapsed s =
     calculateDetailedStats
       (real (length (typedText s)))
       (real_of_int (int (length (typedText s)) - int (length (errors s))))
       (real (length (errors s)))
       (if elapsed = 0 then 0.1 else elapsed)"

definition finish :: "engine \<Rightarrow> engine" where
  "finish s = s\<lparr>isActive := False, timerRunning := False,
                 onCompleteCalls := onCompleteCalls s + 1\<rparr>"

text \<open>
  When the early return is not taken, \<open>currentIndex\<close> is below the length of the
  normalized target, so \<open>normalizedTarget[currentIndex]\<close> is the one-unit string at that
  index.
\<close>

definition handleKeyPress :: "engineEnv \<Rightarrow> string \<Rightarrow> ModifierState \<Rightarrow> engine \<Rightarrow> engine" where
  "handleKeyPress env k mods s =
     (if \<not> isTypeableKey (mapper env) k \<or> isCompleted env s then s
      else
        let s1 = (if \<not> isActive s then s\<lparr>isActive := True, timerRunning := True\<rparr> else s);
            char = getCharacterForKey (mapper env) k mods
        in if char = [] then s1
           else
             let expected = [normalizedTarget env ! currentIndex s];
                 correct = compareHindiChars env char expected;
                 nextIndex = currentIndex s + 1;
                 s2 = s1\<lparr>typedText := typedText s @ char,
                         errors := (if \<not> correct then errors s @ [currentIndex s] else errors s),
                         currentIndex := nextIndex\<rparr>
             in if nextIndex \<ge> length (normalizedTarget env)
                then s2\<lparr>pendingFinish := pendingFinish s2 + 1\<rparr>
                else s2)"

definition reset :: "engine \<Rightarrow> engine" where
  "reset s = s\<lparr>currentIndex := 0, typedText := [], errors := [], isActive := False,
                timerRunning := False\<rparr>"

text \<open>
  What can happen to a session: a key press delivered by the keyboard hook, the timer's
  duration callback (\<open>onComplete: () => finish()\<close>), a scheduled \<open>setTimeout(finish, 50)\<close>
  running, and \<open>reset()\<close>.
\<close>

datatype event = KeyPress string ModifierState | TimerComplete | FinishTimeout | Reset

definition step :: "engineEnv \<Rightarrow> engine \<Rightarrow> event \<Rightarrow> engine" where
  "step env s e =
     (case e of
        KeyPress k m \<Rightarrow> handleKeyPress env k m s
      | TimerComplete \<Rightarrow> finish s
      | FinishTimeout \<Rightarrow>
          (if pendingFinish s = 0 then s
           else finish (s\<lparr>pendingFinish := pendingFinish s - 1\<rparr>))
      | Reset \<Rightarrow> reset s)"

fun run :: "engineEnv \<Rightarrow> engine \<Rightarrow> event list \<Rightarrow> engine" where
  "run env s [] = s"
| "run env s (e # es) = run env (step env s e) es"

section \<open>Layout provider (contexts/KeyboardLayoutContext)\<close>

text \<open>
  The provider's state is the \<open>layoutId\<close> cell; \<open>setLayout\<close> is its setter
  \<open>setLayoutId\<close>. A render reads \<open>AVAILABLE_LAYOUTS[layoutId]\<close> and then
  \<open>currentLayout.rows.flat()\<close>, which throws a \<open>TypeError\<close> when the identifier names no
  layout of the registry.
\<close>

record providerState =
  layoutId :: string

datatype jsError = TypeError

record contextValue =
  currentLayout :: KeyboardLayout
  currentLayoutId :: string
  keyMap :: "(string, KeyMapping) jsMap"

definition setLayout :: "string \<Rightarrow> providerState \<Rightarrow> providerState" where
  "setLayout newId s = s\<lparr>layoutId := newId\<rparr>"

definition renderProvider :: "providerState \<Rightarrow> jsError + contextValue" where
  "renderProvider s =
     (case map_of AVAILABLE_LAYOUTS (layoutId s) of
        None \<Rightarrow> Inl TypeError
      | Some layout \<Rightarrow>
          Inr \<lparr>currentLayout = layout, currentLayoutId = layoutId s,
               keyMap = keyIndex layout\<rparr>)"

section \<open>Auxiliary definitions for the statements\<close>

text \<open>The slot of a mapping that a modifier state selects.\<close>

definition slot :: "ModifierState \<Rightarrow> KeyMapping \<Rightarrow> jsstring" where
  "slot modifierState keyMapping =
     (case modifierState of
        Shift \<Rightarrow> shift keyMapping
      | AltGr \<Rightarrow> altgr keyMapping
      | AltGrShift \<Rightarrow> altgrShift keyMapping
      | Normal \<Rightarrow> normal keyMapping)"

text \<open>The candidates one mapping contributes, in the order of the four tests.\<close>

definition matchesOf :: "jsstring \<Rightarrow> KeyMapping \<Rightarrow> candidate list" where
  "matchesOf character keyMapping =
     map (\<lambda>m. (key keyMapping, m, keyMapping))
       (filter (\<lambda>m. slot m keyMapping = character) [Normal, Shift, AltGr, AltGrShift])"

text \<open>
  The shape of every key index: no key twice, and each entry filed under its own key.
\<close>

definition keyed :: "(string, KeyMapping) jsMap \<Rightarrow> bool" where
  "keyed m = (distinct (map fst m) \<and> (\<forall>p \<in> set m. key (snd p) = fst p))"

text \<open>
  Two invariants of the engine: the bounds on the cursor and the recorded errors, and the
  count of completion signals after \<open>n\<close> timer callbacks in a session without reset.
\<close>

definition engineInv :: "engineEnv \<Rightarrow> engine \<Rightarrow> bool" where
  "engineInv env s =
     ((\<forall>p \<in> set (errors s). p < currentIndex s) \<and>
      currentIndex s \<le> length (typedText s) \<and>
      currentIndex s \<le> length (normalizedTarget env))"

definition signalled :: "engineEnv \<Rightarrow> nat \<Rightarrow> engine \<Rightarrow> bool" where
  "signalled env n s =
     (onCompleteCalls s + pendingFinish s =
        n + (if currentIndex s = length (normalizedTarget env) \<and> normalizedTarget env \<noteq> []
             then 1 else 0) \<and>
      currentIndex s \<le> length (normalizedTarget env))"

text \<open>
  The wording of section 4.1 of the specification for the modifier state, to be compared
  with \<open>getModifierState\<close>: the roles are the groups that the layout declares.
\<close>

definition modifierStateFor_spec :: "KeyboardLayout \<Rightarrow> string list \<Rightarrow> ModifierState" where
  "modifierStateFor_spec layout pressedKeys =
     (let shiftHeld = (\<exists>k \<in> set pressedKeys. k \<in> set (shiftKeys (modifiers layout)));
          altgrHeld = (\<exists>k \<in> set pressedKeys. k \<in> set (altgrKeys (modifiers layout)))
      in if shiftHeld \<and> altgrHeld then AltGrShift
         else if altgrHeld then AltGr
         else if shiftHeld then Shift
         else Normal)"

text \<open>
  Environments for evaluating concrete sessions. The identity and the equality of code
  units stand in for the two functions of utils/hindiUtils; the general theorems below
  hold for every choice of them. \<open>spaceBarIndex\<close> is the key index of the space-bar row
  alone, a layout whose slots are all empty or one code unit long.
\<close>

definition sessionOn :: "(string, KeyMapping) jsMap \<Rightarrow> jsstring \<Rightarrow> engineEnv" where
  "sessionOn idx target =
     \<lparr>mapper = idx, normalizeHindiText = (\<lambda>t. t), compareHindiChars = (\<lambda>a b. a = b),
      targetText = target\<rparr>"

definition spaceBarIndex :: "(string, KeyMapping) jsMap" where
  "spaceBarIndex = new_Map (map (\<lambda>k. (key k, k)) (rows REMINGTON_GAIL_LAYOUT ! 4))"

section \<open>Lemmas on the key index\<close>

lemma Map_set_fresh: "k \<notin> fst ` set m \<Longrightarrow> Map_set m k v = m @ [(k, v)]"
  by (induction m) auto

lemma Map_set_keys:
  "map fst (Map_set m k v) = (if k \<in> fst ` set m then map fst m else map fst m @ [k])"
  by (induction m) auto

lemma Map_set_entries: "set (Map_set m k v) \<subseteq> insert (k, v) (set m)"
  by (induction m) auto

lemma Map_set_distinct: "distinct (map fst m) \<Longrightarrow> distinct (map fst (Map_set m k v))"
  by (simp add: Map_set_keys)

lemma keyed_Map_set: "keyed m \<Longrightarrow> keyed (Map_set m (key v) v)"
  unfolding keyed_def using Map_set_entries [of m "key v" v]
  by (auto simp: Map_set_distinct)

lemma keyed_foldl:
  "keyed acc \<Longrightarrow>
   keyed (foldl (\<lambda>m (k, v). Map_set m k v) acc (map (\<lambda>k. (key k, k)) ks))"
  by (induction ks arbitrary: acc) (simp_all add: keyed_Map_set)

lemma keyed_keyIndex: "keyed (keyIndex layout)"
  unfolding keyIndex_def new_Map_def by (rule keyed_foldl) (simp add: keyed_def)

lemma foldl_Map_set_distinct:
  "distinct (map fst xs) \<Longrightarrow> fst ` set acc \<inter> fst ` set xs = {} \<Longrightarrow>
   foldl (\<lambda>m (k, v). Map_set m k v) acc xs = acc @ xs"
proof (induction xs arbitrary: acc)
  case Nil
  then show ?case by simp
next
  case (Cons x xs)
  obtain k v where x: "x = (k, v)" by (cases x)
  from Cons.prems have fresh: "k \<notin> fst ` set acc" by (auto simp: x)
  have "foldl (\<lambda>m (k, v). Map_set m k v) (acc @ [(k, v)]) xs = (acc @ [(k, v)]) @ xs"
    using Cons.prems by (intro Cons.IH) (auto simp: x)
  then show ?case by (simp add: x Map_set_fresh [OF fresh])
qed

lemma new_Map_distinct: "distinct (map fst xs) \<Longrightarrow> new_Map xs = xs"
  unfolding new_Map_def using foldl_Map_set_distinct [of xs "[]"] by simp

lemma keyIndex_distinct:
  "distinct (map key (concat (rows layout))) \<Longrightarrow>
   keyIndex layout = map (\<lambda>k. (key k, k)) (concat (rows layout))"
  unfolding keyIndex_def by (rule new_Map_distinct) (simp add: comp_def)

lemma remington_distinct: "distinct (map key (concat (rows REMINGTON_GAIL_LAYOUT)))"
  by (simp add: REMINGTON_GAIL_LAYOUT_def)

lemma inscript_distinct: "distinct (map key (concat (rows INSCRIPT_LAYOUT)))"
  by (simp add: INSCRIPT_LAYOUT_def)

lemma KEY_MAP_entries:
  "KEY_MAP = map (\<lambda>k. (key k, k)) (concat (rows REMINGTON_GAIL_LAYOUT))"
  unfolding KEY_MAP_def by (rule keyIndex_distinct [OF remington_distinct])

lemma INSCRIPT_KEY_MAP_entries:
  "INSCRIPT_KEY_MAP = map (\<lambda>k. (key k, k)) (concat (rows INSCRIPT_LAYOUT))"
  unfolding INSCRIPT_KEY_MAP_def by (rule keyIndex_distinct [OF inscript_distinct])

lemma spaceBarIndex_entries:
  "spaceBarIndex = map (\<lambda>k. (key k, k)) (rows REMINGTON_GAIL_LAYOUT ! 4)"
  unfolding spaceBarIndex_def
  by (rule new_Map_distinct) (simp add: REMINGTON_GAIL_LAYOUT_def)

lemma map_of_keyed_find:
  "map_of (map (\<lambda>k. (key k, k)) xs) k = find (\<lambda>m. key m = k) xs"
  by (induction xs) auto

lemma keyed_map_of:
  "keyed m \<Longrightarrow> map_of m k = Some km \<longleftrightarrow> (km \<in> set (Map_values m) \<and> key km = k)"
  unfolding keyed_def Map_values_def
  by force

lemma available_cases:
  "map_of AVAILABLE_LAYOUTS newId = Some layout \<Longrightarrow>
   layout = REMINGTON_GAIL_LAYOUT \<or> layout = INSCRIPT_LAYOUT"
  by (auto simp: AVAILABLE_LAYOUTS_def split: if_splits)

lemma available_keyIndex:
  "map_of AVAILABLE_LAYOUTS newId = Some layout \<Longrightarrow>
   keyIndex layout = map (\<lambda>k. (key k, k)) (concat (rows layout))"
  using available_cases [of newId layout] keyIndex_distinct remington_distinct inscript_distinct
  by blast

lemma available_modifiers:
  "map_of AVAILABLE_LAYOUTS newId = Some layout \<Longrightarrow>
   k \<in> set (shiftKeys (modifiers layout)) \<or> k \<in> set (altgrKeys (modifiers layout)) \<Longrightarrow>
   isModifierKey k"
  using available_cases [of newId layout]
  by (auto simp: isModifierKey_def REMINGTON_GAIL_LAYOUT_def INSCRIPT_LAYOUT_def)

section \<open>Lemmas on the candidate search\<close>

lemma pushMatches_append: "pushMatches c results km = results @ matchesOf c km"
  by (simp add: pushMatches_def matchesOf_def slot_def Let_def)

lemma foldl_pushMatches:
  "foldl (pushMatches c) acc kms = acc @ concat (map (matchesOf c) kms)"
  by (induction kms arbitrary: acc) (simp_all add: pushMatches_append)

lemma findKeysForCharacter_concat:
  "findKeysForCharacter idx c = concat (map (matchesOf c) (Map_values idx))"
  by (simp add: findKeysForCharacter_def foldl_pushMatches)

lemma in_matchesOf:
  "(k, m, km') \<in> set (matchesOf c km) \<longleftrightarrow> (km' = km \<and> k = key km \<and> slot m km = c)"
  by (cases m) (auto simp: matchesOf_def)

lemma in_findKeysForCharacter:
  "(k, m, km) \<in> set (findKeysForCharacter idx c) \<longleftrightarrow>
   (km \<in> set (Map_values idx) \<and> key km = k \<and> slot m km = c)"
  by (auto simp: findKeysForCharacter_concat in_matchesOf)

lemma getCharacterForKey_slot:
  "getCharacterForKey idx k m =
     (case Map_get idx k of None \<Rightarrow> [] | Some km \<Rightarrow> slot m km)"
  by (simp add: getCharacterForKey_def slot_def split: option.splits)

section \<open>Lemmas on the typing engine\<close>

lemma engineInv_initial: "engineInv env initialEngine"
  by (simp add: engineInv_def initialEngine_def)

lemma engineInv_handleKeyPress: "engineInv env s \<Longrightarrow> engineInv env (handleKeyPress env k m s)"
  unfolding engineInv_def handleKeyPress_def isCompleted_def Let_def
  by (cases "getCharacterForKey (mapper env) k m") (auto simp: less_Suc_eq)

lemma engineInv_step: "engineInv env s \<Longrightarrow> engineInv env (step env s e)"
proof (cases e)
  case (KeyPress k m)
  assume "engineInv env s"
  then show ?thesis by (simp add: step_def KeyPress engineInv_handleKeyPress)
next
  case TimerComplete
  assume "engineInv env s"
  then show ?thesis by (simp add: step_def TimerComplete finish_def engineInv_def)
next
  case FinishTimeout
  assume "engineInv env s"
  then show ?thesis by (simp add: step_def FinishTimeout finish_def engineInv_def)
next
  case Reset
  assume "engineInv env s"
  then show ?thesis by (simp add: step_def Reset reset_def engineInv_def)
qed

lemma engineInv_run: "engineInv env s \<Longrightarrow> engineInv env (run env s evs)"
  by (induction evs arbitrary: s) (simp_all add: engineInv_step)

lemma typed_handleKeyPress:
  assumes "\<forall>k m. length (getCharacterForKey (mapper env) k m) \<le> 1"
    and "currentIndex s = length (typedText s)"
  shows "currentIndex (handleKeyPress env k m s) = length (typedText (handleKeyPress env k m s))"
proof (cases "getCharacterForKey (mapper env) k m")
  case Nil
  then show ?thesis using assms(2) by (simp add: handleKeyPress_def Let_def)
next
  case (Cons c cs)
  from assms(1) have "length (getCharacterForKey (mapper env) k m) \<le> 1"
    by blast
  with Cons have "cs = []" by simp
  with Cons show ?thesis using assms(2) by (simp add: handleKeyPress_def Let_def)
qed

lemma typed_step:
  assumes "\<forall>k m. length (getCharacterForKey (mapper env) k m) \<le> 1"
    and "currentIndex s = length (typedText s)"
  shows "currentIndex (step env s e) = length (typedText (step env s e))"
proof (cases e)
  case (KeyPress k m)
  then show ?thesis using typed_handleKeyPress [OF assms] by (simp add: step_def)
qed (use assms(2) in \<open>simp_all add: step_def finish_def reset_def\<close>)

lemma typed_run:
  "\<forall>k m. length (getCharacterForKey (mapper env) k m) \<le> 1 \<Longrightarrow>
   currentIndex s = length (typedText s) \<Longrightarrow>
   currentIndex (run env s evs) = length (typedText (run env s evs))"
proof (induction evs arbitrary: s)
  case Nil
  then show ?case by simp
next
  case (Cons e evs)
  from Cons.prems have "currentIndex (step env s e) = length (typedText (step env s e))"
    by (rule typed_step)
  with Cons.prems(1) show ?case by (simp add: Cons.IH)
qed

lemma signalled_initial: "signalled env 0 initialEngine"
  by (auto simp: signalled_def initialEngine_def)

lemma signalled_handleKeyPress:
  "signalled env n s \<Longrightarrow> signalled env n (handleKeyPress env k m s)"
  unfolding signalled_def handleKeyPress_def isCompleted_def Let_def
  by (cases "getCharacterForKey (mapper env) k m") (auto split: if_splits)

lemma signalled_step:
  "signalled env n s \<Longrightarrow> e \<noteq> Reset \<Longrightarrow>
   signalled env (n + (if e = TimerComplete then 1 else 0)) (step env s e)"
proof (cases e)
  case (KeyPress k m)
  assume "signalled env n s"
  then show ?thesis by (simp add: step_def KeyPress signalled_handleKeyPress)
next
  case TimerComplete
  assume "signalled env n s"
  then show ?thesis by (simp add: step_def TimerComplete finish_def signalled_def)
next
  case FinishTimeout
  assume "signalled env n s"
  then show ?thesis
    by (auto simp: step_def FinishTimeout finish_def signalled_def split: if_splits)
qed simp

lemma signalled_run:
  "signalled env n s \<Longrightarrow> Reset \<notin> set evs \<Longrightarrow>
   signalled env (n + count_list evs TimerComplete) (run env s evs)"
proof (induction evs arbitrary: n s)
  case Nil
  then show ?case by simp
next
  case (Cons e evs)
  from Cons.prems have "signalled env (n + (if e = TimerComplete then 1 else 0)) (step env s e)"
    by (intro signalled_step) auto
  then have "signalled env (n + (if e = TimerComplete then 1 else 0) + count_list evs TimerComplete)
      (run env (step env s e) evs)"
    using Cons.prems by (intro Cons.IH) auto
  then show ?case by (cases "e = TimerComplete") simp_all
qed

section \<open>Evaluation of single keys\<close>

lemma sessionOn_simps:
  "mapper (sessionOn idx target) = idx"
  "normalizedTarget (sessionOn idx target) = target"
  "compareHindiChars (sessionOn idx target) a b = (a = b)"
  by (simp_all add: sessionOn_def normalizedTarget_def)

lemma KeyV_remington:
  "isTypeableKey KEY_MAP ''KeyV''"
  "getCharacterForKey KEY_MAP ''KeyV'' Normal = [0x0905]"
  by (simp_all add: isTypeableKey_def isModifierKey_def Map_has_def getCharacterForKey_def
      Map_get_def KEY_MAP_entries REMINGTON_GAIL_LAYOUT_def)

lemma Backquote_remington:
  "isTypeableKey KEY_MAP ''Backquote''"
  "getCharacterForKey KEY_MAP ''Backquote'' Shift = [0x0926, 0x094D, 0x092F]"
  by (simp_all add: isTypeableKey_def isModifierKey_def Map_has_def getCharacterForKey_def
      Map_get_def KEY_MAP_entries REMINGTON_GAIL_LAYOUT_def)

lemma KeyE_remington:
  "getCharacterForKey KEY_MAP ''KeyE'' Shift = [0x092E, 0x094D]"
  by (simp add: getCharacterForKey_def Map_get_def KEY_MAP_entries REMINGTON_GAIL_LAYOUT_def)

lemma KeyE_inscript:
  "isTypeableKey INSCRIPT_KEY_MAP ''KeyE''"
  "getCharacterForKey INSCRIPT_KEY_MAP ''KeyE'' Shift = [0x0906]"
  by (simp_all add: isTypeableKey_def isModifierKey_def Map_has_def getCharacterForKey_def
      Map_get_def INSCRIPT_KEY_MAP_entries INSCRIPT_LAYOUT_def)

lemma KeyU_remington:
  "Map_has KEY_MAP ''KeyU''"
  "getCharacterForKey KEY_MAP ''KeyU'' AltGr = [0x092B, 0x093C]"
  by (simp_all add: Map_has_def getCharacterForKey_def
      Map_get_def KEY_MAP_entries REMINGTON_GAIL_LAYOUT_def)

lemma CapsLock_remington: "Map_has KEY_MAP ''CapsLock''"
  by (simp add: Map_has_def KEY_MAP_entries REMINGTON_GAIL_LAYOUT_def)

lemma spaceBarIndex_single: "length (getCharacterForKey spaceBarIndex k m) \<le> 1"
  by (cases m)
    (simp_all add: getCharacterForKey_def Map_get_def spaceBarIndex_entries REMINGTON_GAIL_LAYOUT_def)

lemma Space_spaceBar:
  "isTypeableKey spaceBarIndex ''Space''"
  "getCharacterForKey spaceBarIndex ''Space'' Normal = [0x0020]"
  by (simp_all add: isTypeableKey_def isModifierKey_def Map_has_def getCharacterForKey_def
      Map_get_def spaceBarIndex_entries REMINGTON_GAIL_LAYOUT_def)

lemma KeyV_on_AA:
  "handleKeyPress (sessionOn KEY_MAP [0x0906, 0x0905]) ''KeyV'' Normal initialEngine =
     \<lparr>currentIndex = 1, typedText = [0x0905], errors = [0], isActive = True,
      timerRunning = True, pendingFinish = 0, onCompleteCalls = 0\<rparr>"
  by (simp add: handleKeyPress_def isCompleted_def initialEngine_def
      sessionOn_simps KeyV_remington Let_def)

lemma KeyV_on_A:
  "handleKeyPress (sessionOn KEY_MAP [0x0905, 0x0905]) ''KeyV'' Normal initialEngine =
     \<lparr>currentIndex = 1, typedText = [0x0905], errors = [], isActive = True,
      timerRunning = True, pendingFinish = 0, onCompleteCalls = 0\<rparr>"
  by (simp add: handleKeyPress_def isCompleted_def initialEngine_def
      sessionOn_simps KeyV_remington Let_def)

section \<open>C1: completion\<close>

text \<open>
  Against C1 as stated: on the target of two letters A, the first letter is typed, the
  timer's duration callback runs \<open>finish\<close> (one call of \<open>onComplete\<close>, and the session is
  not completed: the cursor is at 1 of 2), the second letter is typed and the scheduled
  \<open>finish\<close> runs: \<open>onComplete\<close> has been called twice in one session.
\<close>

theorem C1_counterexample:
  "\<not> isCompleted (sessionOn KEY_MAP [0x0905, 0x0905])
       (run (sessionOn KEY_MAP [0x0905, 0x0905]) initialEngine
          [KeyPress ''KeyV'' Normal, TimerComplete]) \<and>
   onCompleteCalls
     (run (sessionOn KEY_MAP [0x0905, 0x0905]) initialEngine
        [KeyPress ''KeyV'' Normal, TimerComplete]) = 1 \<and>
   onCompleteCalls
     (run (sessionOn KEY_MAP [0x0905, 0x0905]) initialEngine
        [KeyPress ''KeyV'' Normal, TimerComplete, KeyPress ''KeyV'' Normal, FinishTimeout]) = 2"
  by (simp add: step_def handleKeyPress_def isCompleted_def finish_def initialEngine_def
      sessionOn_simps KeyV_remington Let_def)

text \<open>
  C1, amended. In every state a session can reach, \<open>isCompleted\<close> holds exactly when the
  cursor equals the length of the normalized target. Completion is signalled by the calls
  of \<open>onComplete\<close>: the timer's duration callback calls it once and leaves the cursor
  where it is; the accepted keystroke that brings the cursor to the target's length, and no
  other keystroke, schedules \<open>finish\<close> once; a scheduled \<open>finish\<close> that runs calls it
  once. In a session without reset the calls made and scheduled are therefore as many as
  the timer callbacks, plus one when the target is not empty and has been consumed: one
  signal when one of the two triggers occurred, none before either, none for an empty
  target without timer.
\<close>

theorem C1_completion_signals:
  "(isCompleted env (run env initialEngine evs) \<longleftrightarrow>
      currentIndex (run env initialEngine evs) = length (normalizedTarget env)) \<and>
   (Reset \<notin> set evs \<longrightarrow>
      onCompleteCalls (run env initialEngine evs) + pendingFinish (run env initialEngine evs) =
        count_list evs TimerComplete +
        (if currentIndex (run env initialEngine evs) = length (normalizedTarget env) \<and>
            normalizedTarget env \<noteq> []
         then 1 else 0)) \<and>
   pendingFinish (handleKeyPress env k m s) =
     pendingFinish s +
     (if isTypeableKey (mapper env) k \<and> \<not> isCompleted env s \<and>
         getCharacterForKey (mapper env) k m \<noteq> [] \<and>
         length (normalizedTarget env) \<le> currentIndex s + 1
      then 1 else 0) \<and>
   onCompleteCalls (handleKeyPress env k m s) = onCompleteCalls s \<and>
   onCompleteCalls (step env s FinishTimeout) =
     onCompleteCalls s + (if pendingFinish s = 0 then 0 else 1) \<and>
   pendingFinish (step env s FinishTimeout) = pendingFinish s - 1 \<and>
   onCompleteCalls (step env s TimerComplete) = onCompleteCalls s + 1 \<and>
   pendingFinish (step env s TimerComplete) = pendingFinish s \<and>
   currentIndex (step env s TimerComplete) = currentIndex s"
proof (intro conjI impI)
  have "engineInv env (run env initialEngine evs)"
    by (rule engineInv_run [OF engineInv_initial])
  then show "isCompleted env (run env initialEngine evs) \<longleftrightarrow>
      currentIndex (run env initialEngine evs) = length (normalizedTarget env)"
    by (auto simp: engineInv_def isCompleted_def)
next
  assume "Reset \<notin> set evs"
  then have "signalled env (0 + count_list evs TimerComplete) (run env initialEngine evs)"
    by (rule signalled_run [OF signalled_initial])
  then show "onCompleteCalls (run env initialEngine evs) + pendingFinish (run env initialEngine evs) =
        count_list evs TimerComplete +
        (if currentIndex (run env initialEngine evs) = length (normalizedTarget env) \<and>
            normalizedTarget env \<noteq> []
         then 1 else 0)"
    by (simp add: signalled_def)
next
  show "pendingFinish (handleKeyPress env k m s) =
     pendingFinish s +
     (if isTypeableKey (mapper env) k \<and> \<not> isCompleted env s \<and>
         getCharacterForKey (mapper env) k m \<noteq> [] \<and>
         length (normalizedTarget env) \<le> currentIndex s + 1
      then 1 else 0)"
    by (simp add: handleKeyPress_def Let_def)
  show "onCompleteCalls (handleKeyPress env k m s) = onCompleteCalls s"
    by (simp add: handleKeyPress_def Let_def)
qed (simp_all add: step_def finish_def)

theorem C1_witness:
  "Reset \<notin> set [KeyPress ''KeyV'' Normal, FinishTimeout] \<and>
   isCompleted (sessionOn KEY_MAP [0x0905])
     (run (sessionOn KEY_MAP [0x0905]) initialEngine [KeyPress ''KeyV'' Normal, FinishTimeout]) \<and>
   onCompleteCalls
     (run (sessionOn KEY_MAP [0x0905]) initialEngine [KeyPress ''KeyV'' Normal, FinishTimeout]) = 1 \<and>
   pendingFinish
     (run (sessionOn KEY_MAP [0x0905]) initialEngine [KeyPress ''KeyV'' Normal, FinishTimeout]) = 0 \<and>
   pendingFinish
     (run (sessionOn KEY_MAP [0x0905]) initialEngine [KeyPress ''KeyV'' Normal]) = 1 \<and>
   onCompleteCalls
     (run (sessionOn KEY_MAP [0x0905]) initialEngine [KeyPress ''KeyV'' Normal]) = 0 \<and>
   Reset \<notin> set [KeyPress ''KeyV'' Normal, TimerComplete] \<and>
   \<not> isCompleted (sessionOn KEY_MAP [0x0905, 0x0905])
     (run (sessionOn KEY_MAP [0x0905, 0x0905]) initialEngine [KeyPress ''KeyV'' Normal, TimerComplete]) \<and>
   onCompleteCalls
     (run (sessionOn KEY_MAP [0x0905, 0x0905]) initialEngine [KeyPress ''KeyV'' Normal, TimerComplete]) = 1 \<and>
   pendingFinish
     (run (sessionOn KEY_MAP [0x0905, 0x0905]) initialEngine [KeyPress ''KeyV'' Normal, TimerComplete]) = 0"
  using C1_completion_signals
      [where env = "sessionOn KEY_MAP [0x0905]" and evs = "[KeyPress ''KeyV'' Normal, FinishTimeout]"
         and k = "''KeyV''" and m = Normal and s = initialEngine]
    C1_completion_signals
      [where env = "sessionOn KEY_MAP [0x0905, 0x0905]"
         and evs = "[KeyPress ''KeyV'' Normal, TimerComplete]"
         and k = "''KeyV''" and m = Normal and s = initialEngine]
  by (simp add: step_def handleKeyPress_def isCompleted_def finish_def initialEngine_def
      sessionOn_simps KeyV_remington Let_def)

section \<open>C2: cursor, typed text and error positions\<close>

text \<open>
  Against C2 as stated: Shift+Backquote of remington-gail resolves to the conjunct dya,
  three code units. After this one keystroke the cursor is 1 and the typed text has
  length 3.
\<close>

theorem C2_counterexample:
  "currentIndex
     (handleKeyPress (sessionOn KEY_MAP [0x0905]) ''Backquote'' Shift initialEngine) = 1 \<and>
   typedText
     (handleKeyPress (sessionOn KEY_MAP [0x0905]) ''Backquote'' Shift initialEngine) =
       [0x0926, 0x094D, 0x092F] \<and>
   currentIndex
     (handleKeyPress (sessionOn KEY_MAP [0x0905]) ''Backquote'' Shift initialEngine) \<noteq>
   length (typedText
     (handleKeyPress (sessionOn KEY_MAP [0x0905]) ''Backquote'' Shift initialEngine))"
  by (simp add: handleKeyPress_def isCompleted_def initialEngine_def
      sessionOn_simps Backquote_remington Let_def)

text \<open>
  C2, amended. In every state a session can reach, every recorded error position is below
  the cursor, and the cursor is at most the length of the typed text; the two are equal
  when no slot of the key index is longer than one code unit. An accepted keystroke moves
  the cursor by one and lengthens the typed text by the number of code units of the
  resolved character.
\<close>

theorem C2_errors_and_typed_length:
  "(\<forall>p \<in> set (errors (run env initialEngine evs)). p < currentIndex (run env initialEngine evs)) \<and>
   currentIndex (run env initialEngine evs) \<le> length (typedText (run env initialEngine evs)) \<and>
   ((\<forall>k m. length (getCharacterForKey (mapper env) k m) \<le> 1) \<longrightarrow>
      currentIndex (run env initialEngine evs) = length (typedText (run env initialEngine evs))) \<and>
   (isTypeableKey (mapper env) k \<and> \<not> isCompleted env s \<and>
    getCharacterForKey (mapper env) k m \<noteq> [] \<longrightarrow>
      currentIndex (handleKeyPress env k m s) = currentIndex s + 1 \<and>
      length (typedText (handleKeyPress env k m s)) =
        length (typedText s) + length (getCharacterForKey (mapper env) k m))"
proof (intro conjI impI)
  have inv: "engineInv env (run env initialEngine evs)"
    by (rule engineInv_run [OF engineInv_initial])
  then show "\<forall>p \<in> set (errors (run env initialEngine evs)). p < currentIndex (run env initialEngine evs)"
    by (simp add: engineInv_def)
  from inv show "currentIndex (run env initialEngine evs) \<le> length (typedText (run env initialEngine evs))"
    by (simp add: engineInv_def)
next
  assume "\<forall>k m. length (getCharacterForKey (mapper env) k m) \<le> 1"
  then show "currentIndex (run env initialEngine evs) = length (typedText (run env initialEngine evs))"
    by (rule typed_run) (simp add: initialEngine_def)
next
  assume accepted: "isTypeableKey (mapper env) k \<and> \<not> isCompleted env s \<and>
    getCharacterForKey (mapper env) k m \<noteq> []"
  then show "currentIndex (handleKeyPress env k m s) = currentIndex s + 1"
    by (simp add: handleKeyPress_def Let_def)
  from accepted show "length (typedText (handleKeyPress env k m s)) =
        length (typedText s) + length (getCharacterForKey (mapper env) k m)"
    by (simp add: handleKeyPress_def Let_def)
qed

theorem C2_witness:
  "(\<forall>k m. length (getCharacterForKey (mapper (sessionOn spaceBarIndex [0x0905, 0x0020])) k m) \<le> 1) \<and>
   errors (run (sessionOn spaceBarIndex [0x0905, 0x0020]) initialEngine [KeyPress ''Space'' Normal]) = [0] \<and>
   currentIndex (run (sessionOn spaceBarIndex [0x0905, 0x0020]) initialEngine [KeyPress ''Space'' Normal]) = 1 \<and>
   typedText (run (sessionOn spaceBarIndex [0x0905, 0x0020]) initialEngine [KeyPress ''Space'' Normal]) = [0x0020] \<and>
   isTypeableKey (mapper (sessionOn KEY_MAP [0x0905])) ''Backquote'' \<and>
   \<not> isCompleted (sessionOn KEY_MAP [0x0905]) initialEngine \<and>
   getCharacterForKey (mapper (sessionOn KEY_MAP [0x0905])) ''Backquote'' Shift \<noteq> [] \<and>
   length (typedText (handleKeyPress (sessionOn KEY_MAP [0x0905]) ''Backquote'' Shift initialEngine)) = 3"
proof -
  have single: "\<forall>k m. length (getCharacterForKey (mapper (sessionOn spaceBarIndex [0x0905, 0x0020])) k m) \<le> 1"
    by (simp only: sessionOn_simps spaceBarIndex_single simp_thms)
  show ?thesis
    using single
      C2_errors_and_typed_length
        [of "sessionOn spaceBarIndex [0x0905, 0x0020]" "[KeyPress ''Space'' Normal]"
            "''Backquote''" initialEngine Shift]
      C2_errors_and_typed_length
        [of "sessionOn KEY_MAP [0x0905]" "[]" "''Backquote''" initialEngine Shift]
    by (simp add: step_def handleKeyPress_def isCompleted_def initialEngine_def
        sessionOn_simps Space_spaceBar Backquote_remington Let_def)
qed

section \<open>C3: typeable keys\<close>

text \<open>
  Against C3 as stated: \<open>ControlLeft\<close> is in neither modifier-role group of
  remington-gail, is none of the four control keys and has an entry in the key index, and
  it is not typeable.
\<close>

theorem C3_counterexample:
  "''ControlLeft'' \<notin> set (shiftKeys (modifiers REMINGTON_GAIL_LAYOUT)) \<and>
   ''ControlLeft'' \<notin> set (altgrKeys (modifiers REMINGTON_GAIL_LAYOUT)) \<and>
   ''ControlLeft'' \<notin> {''Backspace'', ''Enter'', ''Tab'', ''Escape''} \<and>
   Map_has KEY_MAP ''ControlLeft'' \<and>
   \<not> isTypeableKey KEY_MAP ''ControlLeft''"
  by (simp add: isTypeableKey_def isModifierKey_def Map_has_def KEY_MAP_entries
      REMINGTON_GAIL_LAYOUT_def)

text \<open>
  C3, amended. \<open>isTypeableKey\<close> is false for the eight fixed modifier keys ShiftLeft,
  ShiftRight, AltRight, ControlLeft, ControlRight, AltLeft, MetaLeft and MetaRight and for
  the control keys Backspace, Enter, Tab and Escape; for every other key it is true exactly
  when the key has an entry in the key index. The shift and altgr groups of both layouts
  of the registry lie within the eight fixed keys, so no key of a modifier-role group is
  typeable.
\<close>

theorem C3_isTypeable_fixed_modifiers:
  "(k \<in> {''ShiftLeft'', ''ShiftRight'', ''AltRight'', ''ControlLeft'', ''ControlRight'',
          ''AltLeft'', ''MetaLeft'', ''MetaRight''} \<or>
    k \<in> {''Backspace'', ''Enter'', ''Tab'', ''Escape''} \<longrightarrow> \<not> isTypeableKey idx k) \<and>
   (k \<notin> {''ShiftLeft'', ''ShiftRight'', ''AltRight'', ''ControlLeft'', ''ControlRight'',
          ''AltLeft'', ''MetaLeft'', ''MetaRight''} \<and>
    k \<notin> {''Backspace'', ''Enter'', ''Tab'', ''Escape''} \<longrightarrow>
      isTypeableKey idx k = Map_has idx k) \<and>
   (map_of AVAILABLE_LAYOUTS layoutName = Some layout \<and>
    (k \<in> set (shiftKeys (modifiers layout)) \<or> k \<in> set (altgrKeys (modifiers layout))) \<longrightarrow>
      \<not> isTypeableKey (keyIndex layout) k)"
proof (intro conjI impI)
  assume "map_of AVAILABLE_LAYOUTS layoutName = Some layout \<and>
    (k \<in> set (shiftKeys (modifiers layout)) \<or> k \<in> set (altgrKeys (modifiers layout)))"
  then have "isModifierKey k" using available_modifiers by blast
  then show "\<not> isTypeableKey (keyIndex layout) k" by (simp add: isTypeableKey_def)
qed (auto simp: isTypeableKey_def isModifierKey_def)

theorem C3_witness:
  "\<not> isTypeableKey KEY_MAP ''ControlLeft'' \<and> \<not> isTypeableKey KEY_MAP ''Enter'' \<and>
   isTypeableKey KEY_MAP ''CapsLock'' \<and> Map_has KEY_MAP ''CapsLock'' \<and>
   map_of AVAILABLE_LAYOUTS ''inscript'' = Some INSCRIPT_LAYOUT \<and>
   ''ShiftRight'' \<in> set (shiftKeys (modifiers INSCRIPT_LAYOUT)) \<and>
   \<not> isTypeableKey (keyIndex INSCRIPT_LAYOUT) ''ShiftRight''"
  using C3_isTypeable_fixed_modifiers [of "''ControlLeft''" KEY_MAP "''inscript''" INSCRIPT_LAYOUT]
    C3_isTypeable_fixed_modifiers [of "''Enter''" KEY_MAP "''inscript''" INSCRIPT_LAYOUT]
    C3_isTypeable_fixed_modifiers [of "''CapsLock''" KEY_MAP "''inscript''" INSCRIPT_LAYOUT]
    C3_isTypeable_fixed_modifiers [of "''ShiftRight''" KEY_MAP "''inscript''" INSCRIPT_LAYOUT]
    CapsLock_remington
  by (simp add: AVAILABLE_LAYOUTS_def INSCRIPT_LAYOUT_def)

section \<open>C4: Shift+KeyE\<close>

text \<open>
  Against C4 as stated: under remington-gail, Shift+KeyE resolves to Ma followed by Halant,
  not to the letter AA (U+0906).
\<close>

theorem C4_counterexample:
  "getCharacterForKey KEY_MAP ''KeyE'' Shift = [0x092E, 0x094D] \<and>
   getCharacterForKey KEY_MAP ''KeyE'' Shift \<noteq> [0x0906]"
  by (simp add: KeyE_remington)

text \<open>
  C4, amended. It is under the inscript layout that Shift+KeyE resolves to the letter AA
  (under remington-gail it resolves to Ma followed by Halant). With the inscript key index
  and a normalized target that is the letter AA, which the comparison accepts as equal to
  itself, this single keystroke records no error, moves the cursor to 1, completes the
  session and schedules \<open>finish\<close> once.
\<close>

theorem C4_inscript_KeyE:
  "getCharacterForKey KEY_MAP ''KeyE'' Shift = [0x092E, 0x094D] \<and>
   getCharacterForKey (keyIndex INSCRIPT_LAYOUT) ''KeyE'' Shift = [0x0906] \<and>
   (mapper env = keyIndex INSCRIPT_LAYOUT \<and> normalizedTarget env = [0x0906] \<and>
    compareHindiChars env [0x0906] [0x0906] \<longrightarrow>
      currentIndex (handleKeyPress env ''KeyE'' Shift initialEngine) = 1 \<and>
      errors (handleKeyPress env ''KeyE'' Shift initialEngine) = [] \<and>
      isCompleted env (handleKeyPress env ''KeyE'' Shift initialEngine) \<and>
      pendingFinish (handleKeyPress env ''KeyE'' Shift initialEngine) = 1)"
  using KeyE_inscript KeyE_remington
  by (simp add: INSCRIPT_KEY_MAP_def handleKeyPress_def isCompleted_def initialEngine_def Let_def)

theorem C4_witness:
  "mapper (sessionOn (keyIndex INSCRIPT_LAYOUT) [0x0906]) = keyIndex INSCRIPT_LAYOUT \<and>
   normalizedTarget (sessionOn (keyIndex INSCRIPT_LAYOUT) [0x0906]) = [0x0906] \<and>
   compareHindiChars (sessionOn (keyIndex INSCRIPT_LAYOUT) [0x0906]) [0x0906] [0x0906] \<and>
   currentIndex (handleKeyPress (sessionOn (keyIndex INSCRIPT_LAYOUT) [0x0906]) ''KeyE'' Shift
     initialEngine) = 1 \<and>
   errors (handleKeyPress (sessionOn (keyIndex INSCRIPT_LAYOUT) [0x0906]) ''KeyE'' Shift
     initialEngine) = [] \<and>
   isCompleted (sessionOn (keyIndex INSCRIPT_LAYOUT) [0x0906])
     (handleKeyPress (sessionOn (keyIndex INSCRIPT_LAYOUT) [0x0906]) ''KeyE'' Shift initialEngine)"
  using C4_inscript_KeyE [of "sessionOn (keyIndex INSCRIPT_LAYOUT) [0x0906]"]
  by (simp add: sessionOn_simps)

section \<open>C5: candidates of a character\<close>

text \<open>
  Against C5 as stated: the precomposed letter Fa (U+095E) and Pha followed by Nukta
  (U+092B U+093C) are canonically equivalent, and the canonical pass gives both the same
  form; the search finds no key for the first and AltGr+KeyU for the second.
\<close>

theorem C5_counterexample:
  "canonicalPass [0x095E] = canonicalPass [0x092B, 0x093C] \<and>
   findKeysForCharacter KEY_MAP [0x095E] = [] \<and>
   map (\<lambda>(k, m, km). (k, m)) (findKeysForCharacter KEY_MAP [0x092B, 0x093C]) =
     [(''KeyU'', AltGr)]"
  by (simp add: canonicalPass_def canonicalNukta_def findKeysForCharacter_concat Map_values_def
      KEY_MAP_entries REMINGTON_GAIL_LAYOUT_def matchesOf_def slot_def)

text \<open>
  C5, amended. For every layout and every character \<open>c\<close>, the candidates of \<open>c\<close> in the
  layout's key index are exactly the pairs of a key of the index and a modifier state
  whose resolved character is the same sequence of code units as \<open>c\<close>; nothing is
  normalized before the comparison.
\<close>

theorem C5_candidates_strict_equality:
  "(k, m) \<in> set (map (\<lambda>(k, m, km). (k, m)) (findKeysForCharacter (keyIndex layout) c)) \<longleftrightarrow>
   (Map_has (keyIndex layout) k \<and> getCharacterForKey (keyIndex layout) k m = c)"
proof -
  have "(k, m) \<in> set (map (\<lambda>(k, m, km). (k, m)) (findKeysForCharacter (keyIndex layout) c)) \<longleftrightarrow>
        (\<exists>km. (k, m, km) \<in> set (findKeysForCharacter (keyIndex layout) c))"
    by force
  also have "\<dots> \<longleftrightarrow> (\<exists>km. map_of (keyIndex layout) k = Some km \<and> slot m km = c)"
    by (auto simp: in_findKeysForCharacter keyed_map_of [OF keyed_keyIndex])
  also have "\<dots> \<longleftrightarrow> (Map_has (keyIndex layout) k \<and> getCharacterForKey (keyIndex layout) k m = c)"
    by (auto simp: Map_has_def getCharacterForKey_slot Map_get_def split: option.splits)
  finally show ?thesis .
qed

theorem C5_witness:
  "(''KeyU'', AltGr) \<in>
     set (map (\<lambda>(k, m, km). (k, m))
       (findKeysForCharacter (keyIndex REMINGTON_GAIL_LAYOUT) [0x092B, 0x093C])) \<and>
   (''KeyU'', AltGr) \<notin>
     set (map (\<lambda>(k, m, km). (k, m))
       (findKeysForCharacter (keyIndex REMINGTON_GAIL_LAYOUT) [0x095E]))"
  using C5_candidates_strict_equality [of "''KeyU''" AltGr REMINGTON_GAIL_LAYOUT "[0x092B, 0x093C]"]
    C5_candidates_strict_equality [of "''KeyU''" AltGr REMINGTON_GAIL_LAYOUT "[0x095E]"]
    KeyU_remington
  by (simp add: KEY_MAP_def)

section \<open>C6: selecting a layout\<close>

text \<open>
  Against C6 as stated: \<open>dvorak\<close> is not a layout of the registry; \<open>setLayout\<close> stores it
  all the same, and the next render throws.
\<close>

theorem C6_counterexample:
  "map_of AVAILABLE_LAYOUTS ''dvorak'' = None \<and>
   setLayout ''dvorak'' \<lparr>layoutId = ''remington-gail''\<rparr> \<noteq> \<lparr>layoutId = ''remington-gail''\<rparr> \<and>
   renderProvider (setLayout ''dvorak'' \<lparr>layoutId = ''remington-gail''\<rparr>) = Inl TypeError"
  by (simp add: AVAILABLE_LAYOUTS_def setLayout_def renderProvider_def)

text \<open>
  C6, amended. \<open>setLayout\<close> stores the identifier it is given, without a membership test
  at run time (its parameter type admits the identifiers of the registry only). For every
  identifier of the registry, the render after \<open>setLayout\<close> succeeds and its context value
  holds that identifier, the registry's layout for it and the key index of that layout;
  the index lists the mappings of the layout's rows in order, and looks a key up as the
  first mapping of the rows with that key.
\<close>

theorem C6_setLayout_known:
  "layoutId (setLayout newId s) = newId \<and>
   (map_of AVAILABLE_LAYOUTS newId = Some layout \<longrightarrow>
      renderProvider (setLayout newId s) =
        Inr \<lparr>currentLayout = layout, currentLayoutId = newId, keyMap = keyIndex layout\<rparr> \<and>
      Map_values (keyIndex layout) = concat (rows layout) \<and>
      (\<forall>k. Map_get (keyIndex layout) k = find (\<lambda>m. key m = k) (concat (rows layout))))"
proof (intro conjI impI)
  show "layoutId (setLayout newId s) = newId" by (simp add: setLayout_def)
next
  assume known: "map_of AVAILABLE_LAYOUTS newId = Some layout"
  then show "renderProvider (setLayout newId s) =
        Inr \<lparr>currentLayout = layout, currentLayoutId = newId, keyMap = keyIndex layout\<rparr>"
    by (simp add: renderProvider_def setLayout_def)
  show "Map_values (keyIndex layout) = concat (rows layout)"
    by (simp add: available_keyIndex [OF known] Map_values_def comp_def)
  show "\<forall>k. Map_get (keyIndex layout) k = find (\<lambda>m. key m = k) (concat (rows layout))"
    by (simp add: available_keyIndex [OF known] Map_get_def map_of_keyed_find)
qed

theorem C6_witness:
  "map_of AVAILABLE_LAYOUTS ''inscript'' = Some INSCRIPT_LAYOUT \<and>
   renderProvider (setLayout ''inscript'' \<lparr>layoutId = ''remington-gail''\<rparr>) =
     Inr \<lparr>currentLayout = INSCRIPT_LAYOUT, currentLayoutId = ''inscript'',
          keyMap = keyIndex INSCRIPT_LAYOUT\<rparr> \<and>
   Map_values (keyIndex INSCRIPT_LAYOUT) = concat (rows INSCRIPT_LAYOUT)"
proof -
  have known: "map_of AVAILABLE_LAYOUTS ''inscript'' = Some INSCRIPT_LAYOUT"
    by (simp add: AVAILABLE_LAYOUTS_def)
  show ?thesis
    using known
      C6_setLayout_known [of "''inscript''" "\<lparr>layoutId = ''remington-gail''\<rparr>" INSCRIPT_LAYOUT]
    by simp
qed

section \<open>C7: accuracy\<close>

text \<open>
  Against C7 as stated: on the target A, Shift+Backquote is one typed character, and it is
  wrong, so no character is correct and the claim's quotient is \<open>0 / 1 * 100\<close>. The
  engine passes the three code units of the typed text as the total and three minus one
  recorded error as the correct characters: its accuracy is \<open>200 / 3\<close>.
\<close>

theorem C7_counterexample:
  "currentIndex (handleKeyPress (sessionOn KEY_MAP [0x0905]) ''Backquote'' Shift initialEngine) = 1 \<and>
   errors (handleKeyPress (sessionOn KEY_MAP [0x0905]) ''Backquote'' Shift initialEngine) = [0] \<and>
   accuracy (currentStats 2
     (handleKeyPress (sessionOn KEY_MAP [0x0905]) ''Backquote'' Shift initialEngine)) = 200 / 3 \<and>
   accuracy (currentStats 2
     (handleKeyPress (sessionOn KEY_MAP [0x0905]) ''Backquote'' Shift initialEngine)) \<noteq> 0 / 1 * 100"
  by (simp add: handleKeyPress_def isCompleted_def initialEngine_def currentStats_def
      calculateDetailedStats_def sessionOn_simps Backquote_remington Let_def)

text \<open>
  C7, amended. The accuracy of the engine's current statistics is
  \<open>(typedText.length - errors.length) / typedText.length * 100\<close>, the typed text counted in
  code units and the errors in recorded positions, and \<open>100\<close> when nothing has been typed;
  it is \<open>100\<close> whenever no error is recorded. When the cursor equals the length of the
  typed text, it is the share of the typed positions that carry no error.
\<close>

theorem C7_accuracy_of_engine:
  "accuracy (currentStats elapsed s) =
     (if typedText s = [] then 100
      else (real (length (typedText s)) - real (length (errors s))) /
           real (length (typedText s)) * 100) \<and>
   (errors s = [] \<longrightarrow> accuracy (currentStats elapsed s) = 100) \<and>
   (currentIndex s = length (typedText s) \<longrightarrow>
      accuracy (currentStats elapsed s) =
        (if currentIndex s = 0 then 100
         else (real (currentIndex s) - real (length (errors s))) / real (currentIndex s) * 100))"
  by (auto simp: calculateDetailedStats_def currentStats_def)

theorem C7_witness:
  "errors (handleKeyPress (sessionOn KEY_MAP [0x0905, 0x0905]) ''KeyV'' Normal initialEngine) = [] \<and>
   accuracy (currentStats 2
     (handleKeyPress (sessionOn KEY_MAP [0x0905, 0x0905]) ''KeyV'' Normal initialEngine)) = 100 \<and>
   currentIndex (handleKeyPress (sessionOn KEY_MAP [0x0906, 0x0905]) ''KeyV'' Normal initialEngine) =
     length (typedText
       (handleKeyPress (sessionOn KEY_MAP [0x0906, 0x0905]) ''KeyV'' Normal initialEngine)) \<and>
   accuracy (currentStats 2
     (handleKeyPress (sessionOn KEY_MAP [0x0906, 0x0905]) ''KeyV'' Normal initialEngine)) = 0"
  using C7_accuracy_of_engine
      [where s = "handleKeyPress (sessionOn KEY_MAP [0x0905, 0x0905]) ''KeyV'' Normal initialEngine"
         and elapsed = 2]
    C7_accuracy_of_engine
      [where s = "handleKeyPress (sessionOn KEY_MAP [0x0906, 0x0905]) ''KeyV'' Normal initialEngine"
         and elapsed = 2]
  by (simp add: KeyV_on_AA KeyV_on_A)

section \<open>C8: modifier state\<close>

text \<open>
  Against C8 as stated: inscript declares no altgr-role key, so with \<open>AltRight\<close> alone no
  key of either role is held and the claim gives Normal; \<open>getModifierState\<close> gives AltGr.
\<close>

theorem C8_counterexample:
  "modifierStateFor_spec INSCRIPT_LAYOUT [''AltRight''] = Normal \<and>
   getModifierState [''AltRight''] = AltGr"
  by (simp add: modifierStateFor_spec_def getModifierState_def INSCRIPT_LAYOUT_def)

text \<open>
  C8, amended. \<open>getModifierState\<close> takes ShiftLeft and ShiftRight as the shift-role keys and
  AltRight as the altgr-role key, whatever the layout: it is AltGrShift when a key of each
  role is pressed, else AltGr when AltRight is pressed, else Shift when a shift-role key is
  pressed, else Normal. This is the specified state for every layout that declares these
  groups, as remington-gail does; for inscript, whose altgr group is empty, it is the
  specified state as long as AltRight is not pressed. Two listings of the same set of
  pressed keys give the same result.
\<close>

theorem C8_getModifierState_fixed_roles:
  "getModifierState pressedKeys =
     (if (\<exists>k \<in> set pressedKeys. k \<in> {''ShiftLeft'', ''ShiftRight''}) \<and> ''AltRight'' \<in> set pressedKeys
      then AltGrShift
      else if ''AltRight'' \<in> set pressedKeys then AltGr
      else if \<exists>k \<in> set pressedKeys. k \<in> {''ShiftLeft'', ''ShiftRight''} then Shift
      else Normal) \<and>
   (set (shiftKeys (modifiers layout)) = {''ShiftLeft'', ''ShiftRight''} \<and>
    set (altgrKeys (modifiers layout)) = {''AltRight''} \<longrightarrow>
      getModifierState pressedKeys = modifierStateFor_spec layout pressedKeys) \<and>
   getModifierState pressedKeys = modifierStateFor_spec REMINGTON_GAIL_LAYOUT pressedKeys \<and>
   (''AltRight'' \<notin> set pressedKeys \<longrightarrow>
      getModifierState pressedKeys = modifierStateFor_spec INSCRIPT_LAYOUT pressedKeys) \<and>
   (set pressedKeys = set permuted \<longrightarrow> getModifierState permuted = getModifierState pressedKeys)"
proof (intro conjI impI)
  show "getModifierState pressedKeys = modifierStateFor_spec REMINGTON_GAIL_LAYOUT pressedKeys"
    by (auto simp: getModifierState_def modifierStateFor_spec_def REMINGTON_GAIL_LAYOUT_def Let_def)
next
  assume "''AltRight'' \<notin> set pressedKeys"
  then show "getModifierState pressedKeys = modifierStateFor_spec INSCRIPT_LAYOUT pressedKeys"
    by (auto simp: getModifierState_def modifierStateFor_spec_def INSCRIPT_LAYOUT_def Let_def)
next
  assume "set (shiftKeys (modifiers layout)) = {''ShiftLeft'', ''ShiftRight''} \<and>
    set (altgrKeys (modifiers layout)) = {''AltRight''}"
  then show "getModifierState pressedKeys = modifierStateFor_spec layout pressedKeys"
    by (auto simp: getModifierState_def modifierStateFor_spec_def Let_def)
next
  assume "set pressedKeys = set permuted"
  then show "getModifierState permuted = getModifierState pressedKeys"
    by (simp add: getModifierState_def)
qed (auto simp: getModifierState_def Let_def)

theorem C8_witness:
  "set (shiftKeys (modifiers REMINGTON_GAIL_LAYOUT)) = {''ShiftLeft'', ''ShiftRight''} \<and>
   set (altgrKeys (modifiers REMINGTON_GAIL_LAYOUT)) = {''AltRight''} \<and>
   set [''KeyE'', ''ShiftLeft'', ''AltRight''] = set [''AltRight'', ''KeyE'', ''ShiftLeft''] \<and>
   getModifierState [''KeyE'', ''ShiftLeft'', ''AltRight''] = AltGrShift \<and>
   getModifierState [''AltRight'', ''KeyE'', ''ShiftLeft''] = AltGrShift \<and>
   modifierStateFor_spec REMINGTON_GAIL_LAYOUT [''KeyE'', ''ShiftLeft'', ''AltRight''] = AltGrShift \<and>
   getModifierState [''AltRight'', ''KeyE''] = AltGr \<and>
   ''AltRight'' \<notin> set [''KeyE'', ''ShiftRight''] \<and>
   getModifierState [''KeyE'', ''ShiftRight''] = Shift \<and>
   modifierStateFor_spec INSCRIPT_LAYOUT [''KeyE'', ''ShiftRight''] = Shift \<and>
   getModifierState [''KeyE''] = Normal"
  using C8_getModifierState_fixed_roles
      [where pressedKeys = "[''KeyE'', ''ShiftLeft'', ''AltRight'']"
         and permuted = "[''AltRight'', ''KeyE'', ''ShiftLeft'']" and layout = REMINGTON_GAIL_LAYOUT]
    C8_getModifierState_fixed_roles
      [where pressedKeys = "[''AltRight'', ''KeyE'']" and permuted = "[''AltRight'', ''KeyE'']"
         and layout = REMINGTON_GAIL_LAYOUT]
    C8_getModifierState_fixed_roles
      [where pressedKeys = "[''KeyE'', ''ShiftRight'']" and permuted = "[''KeyE'', ''ShiftRight'']"
         and layout = REMINGTON_GAIL_LAYOUT]
    C8_getModifierState_fixed_roles
      [where pressedKeys = "[''KeyE'']" and permuted = "[''KeyE'']" and layout = REMINGTON_GAIL_LAYOUT]
  by (simp add: REMINGTON_GAIL_LAYOUT_def INSCRIPT_LAYOUT_def modifierStateFor_spec_def insert_commute)

section \<open>C10: candidates of the empty string\<close>

text \<open>
  C10. The candidates of the empty string in the remington-gail index are not empty: they
  are the forty empty slots of the ten keys that produce nothing, ShiftRight with its four
  slots among them. In every key index the search for the empty string returns one
  candidate for each empty slot.
\<close>

theorem C10_empty_string_candidates:
  "findKeysForCharacter KEY_MAP [] \<noteq> [] \<and>
   map (\<lambda>(k, m, km). (k, m)) (findKeysForCharacter KEY_MAP []) =
     [(''Backspace'', Normal), (''Backspace'', Shift), (''Backspace'', AltGr),
      (''Backspace'', AltGrShift),
      (''Tab'', Normal), (''Tab'', Shift), (''Tab'', AltGr), (''Tab'', AltGrShift),
      (''CapsLock'', Normal), (''CapsLock'', Shift), (''CapsLock'', AltGr),
      (''CapsLock'', AltGrShift),
      (''Enter'', Normal), (''Enter'', Shift), (''Enter'', AltGr), (''Enter'', AltGrShift),
      (''ShiftLeft'', Normal), (''ShiftLeft'', Shift), (''ShiftLeft'', AltGr),
      (''ShiftLeft'', AltGrShift),
      (''ShiftRight'', Normal), (''ShiftRight'', Shift), (''ShiftRight'', AltGr),
      (''ShiftRight'', AltGrShift),
      (''ControlLeft'', Normal), (''ControlLeft'', Shift), (''ControlLeft'', AltGr),
      (''ControlLeft'', AltGrShift),
      (''AltLeft'', Normal), (''AltLeft'', Shift), (''AltLeft'', AltGr),
      (''AltLeft'', AltGrShift),
      (''AltRight'', Normal), (''AltRight'', Shift), (''AltRight'', AltGr),
      (''AltRight'', AltGrShift),
      (''ControlRight'', Normal), (''ControlRight'', Shift), (''ControlRight'', AltGr),
      (''ControlRight'', AltGrShift)] \<and>
   length (findKeysForCharacter idx []) =
     sum_list (map (\<lambda>km. length (filter (\<lambda>m. slot m km = []) [Normal, Shift, AltGr, AltGrShift]))
       (Map_values idx))"
proof (intro conjI)
  show "map (\<lambda>(k, m, km). (k, m)) (findKeysForCharacter KEY_MAP []) =
     [(''Backspace'', Normal), (''Backspace'', Shift), (''Backspace'', AltGr),
      (''Backspace'', AltGrShift),
      (''Tab'', Normal), (''Tab'', Shift), (''Tab'', AltGr), (''Tab'', AltGrShift),
      (''CapsLock'', Normal), (''CapsLock'', Shift), (''CapsLock'', AltGr),
      (''CapsLock'', AltGrShift),
      (''Enter'', Normal), (''Enter'', Shift), (''Enter'', AltGr), (''Enter'', AltGrShift),
      (''ShiftLeft'', Normal), (''ShiftLeft'', Shift), (''ShiftLeft'', AltGr),
      (''ShiftLeft'', AltGrShift),
      (''ShiftRight'', Normal), (''ShiftRight'', Shift), (''ShiftRight'', AltGr),
      (''ShiftRight'', AltGrShift),
      (''ControlLeft'', Normal), (''ControlLeft'', Shift), (''ControlLeft'', AltGr),
      (''ControlLeft'', AltGrShift),
      (''AltLeft'', Normal), (''AltLeft'', Shift), (''AltLeft'', AltGr),
      (''AltLeft'', AltGrShift),
      (''AltRight'', Normal), (''AltRight'', Shift), (''AltRight'', AltGr),
      (''AltRight'', AltGrShift),
      (''ControlRight'', Normal), (''ControlRight'', Shift), (''ControlRight'', AltGr),
      (''ControlRight'', AltGrShift)]"
    by (simp add: findKeysForCharacter_concat Map_values_def KEY_MAP_entries
        REMINGTON_GAIL_LAYOUT_def matchesOf_def slot_def)
  then show "findKeysForCharacter KEY_MAP [] \<noteq> []" by auto
  show "length (findKeysForCharacter idx []) =
     sum_list (map (\<lambda>km. length (filter (\<lambda>m. slot m km = []) [Normal, Shift, AltGr, AltGrShift]))
       (Map_values idx))"
    by (simp add: findKeysForCharacter_concat length_concat matchesOf_def comp_def)
qed

theorem C10_witness:
  "length (findKeysForCharacter KEY_MAP []) = 40 \<and>
   sum_list (map (\<lambda>km. length (filter (\<lambda>m. slot m km = []) [Normal, Shift, AltGr, AltGrShift]))
     (Map_values KEY_MAP)) = 40"
proof -
  note list = C10_empty_string_candidates [of KEY_MAP, THEN conjunct2, THEN conjunct1]
  note count = C10_empty_string_candidates [of KEY_MAP, THEN conjunct2, THEN conjunct2]
  have "length (map (\<lambda>(k, m, km). (k, m)) (findKeysForCharacter KEY_MAP [])) = 40"
    by (subst list) simp
  then have len: "length (findKeysForCharacter KEY_MAP []) = 40"
    by (simp only: length_map)
  from len count show ?thesis by metis
qed

end
